theory Spec2Isabelle
  imports Main
begin

section \<open>Python values and strings\<close>

text \<open>
  The grammars are Python classes whose methods take dynamically typed arguments.
  The values that reach the methods modelled here, or that they could return, are
  \<open>None\<close>, booleans, integers, strings, lists, tuples, and \<open>QueryExpression\<close> objects
  (raw SQL fragments).
\<close>

datatype pyval =
    PyNone
  | PyBool bool
  | PyInt int
  | PyStr string
  | PyList "pyval list"
  | PyTuple "pyval list"
  | PyExpression string

datatype py_error = IndexError | TypeError

text \<open>Python truthiness (\<open>if value:\<close>). A \<open>QueryExpression\<close> is a plain object, hence true.\<close>

fun truthy :: "pyval \<Rightarrow> bool" where
  "truthy PyNone = False"
| "truthy (PyBool b) = b"
| "truthy (PyInt i) = (i \<noteq> 0)"
| "truthy (PyStr s) = (s \<noteq> [])"
| "truthy (PyList xs) = (xs \<noteq> [])"
| "truthy (PyTuple xs) = (xs \<noteq> [])"
| "truthy (PyExpression e) = True"

text \<open>\<open>isinstance(value, basestring)\<close>\<close>

fun isinstance_basestring :: "pyval \<Rightarrow> bool" where
  "isinstance_basestring (PyStr s) = True"
| "isinstance_basestring v = False"

text \<open>\<open>sep.join(parts)\<close>\<close>

fun py_join :: "string \<Rightarrow> string list \<Rightarrow> string" where
  "py_join sep [] = []"
| "py_join sep [x] = x"
| "py_join sep (x # y # ys) = x @ sep @ py_join sep (y # ys)"

text \<open>
  \<open>s.replace(old, new)\<close>: the non-overlapping occurrences of \<open>old\<close> are replaced from
  left to right; an empty \<open>old\<close> matches before every character and at the end.
\<close>

function py_replace :: "string \<Rightarrow> string \<Rightarrow> string \<Rightarrow> string" where
  "py_replace old new s =
     (if old = [] then new @ concat (map (\<lambda>c. c # new) s)
      else if s = [] then []
      else if take (length old) s = old
        then new @ py_replace old new (drop (length old) s)
      else hd s # py_replace old new (tl s))"
  by pat_completeness auto
termination
  by (relation "measure (\<lambda>(old, new, s). length s)") (auto simp: neq_Nil_conv)

declare py_replace.simps [simp del]

text \<open>
  \<open>s.strip()\<close> removes leading and trailing whitespace. The whitespace characters
  among the first 256 code points are tab, line feed, vertical tab, form feed, carriage
  return, the four separators 0x1C to 0x1F, the space, next line (0x85) and the
  no-break space (0xA0).
\<close>

definition py_isspace :: "char \<Rightarrow> bool" where
  "py_isspace c = (c \<in> set [CHR 0x09, CHR 0x0A, CHR 0x0B, CHR 0x0C, CHR 0x0D,
                             CHR 0x1C, CHR 0x1D, CHR 0x1E, CHR 0x1F, CHR 0x20,
                             CHR 0x85, CHR 0xA0])"

definition py_lstrip :: "string \<Rightarrow> string" where
  "py_lstrip s = dropWhile py_isspace s"

definition py_rstrip :: "string \<Rightarrow> string" where
  "py_rstrip s = rev (dropWhile py_isspace (rev s))"

definition py_strip :: "string \<Rightarrow> string" where
  "py_strip s = py_rstrip (py_lstrip s)"

text \<open>Each occurrence of the quote character written twice: what doubling means.\<close>

primrec double_char :: "char \<Rightarrow> string \<Rightarrow> string" where
  "double_char qc [] = []"
| "double_char qc (c # cs) = (if c = qc then [qc, qc] else [c]) @ double_char qc cs"


section \<open>The statement model\<close>

text \<open>
  A table or column reference is a name, or a \<open>QueryExpression\<close> carrying raw SQL.
\<close>

datatype sql_ident = Ident string | RawSql string

record join_clause =
  first :: string
  operator :: string
  second :: string
  boolean :: string
  where_flag :: bool

record join =
  table :: sql_ident
  clauses :: "join_clause list"
  join_type :: string

record where_clause =
  where_boolean :: string
  where_kind :: string
  where_column :: string
  where_operator :: string
  where_value :: pyval

record order_clause =
  order_column :: string
  direction :: string

text \<open>
  The fields of the query builder that the grammars read. \<open>from_table\<close> is the
  attribute \<open>from__\<close> and \<open>limit_value\<close> the attribute \<open>limit_\<close> of the sources;
  \<open>wheres\<close> is \<open>None\<close> when the attribute is not a list; a limit can be any value.
  Of a union only the flag and the SQL of its query are kept.
\<close>

record union_clause =
  union_all :: bool
  union_query_sql :: string

record query =
  from_table :: sql_ident
  joins :: "join list"
  wheres :: "where_clause list option"
  orders :: "order_clause list"
  limit_value :: pyval
  unions :: "union_clause list"


section \<open>Lock clauses\<close>

text \<open>
  \<open>MySQLQueryGrammar._compile_lock\<close>: a string is returned as it is; the other two
  branches test identity with \<open>True\<close> and \<open>False\<close>; a value that matches no branch
  falls off the end of the method, which returns \<open>None\<close>.
\<close>

definition mysql_compile_lock :: "query \<Rightarrow> pyval \<Rightarrow> pyval" where
  "mysql_compile_lock query value =
     (if isinstance_basestring value then value
      else if value = PyBool True then PyStr ''FOR UPDATE''
      else if value = PyBool False then PyStr ''LOCK IN SHARE MODE''
      else PyNone)"

text \<open>\<open>PostgresQueryGrammar._compile_lock\<close>: the second branch tests truthiness.\<close>

definition pg_compile_lock :: "query \<Rightarrow> pyval \<Rightarrow> pyval" where
  "pg_compile_lock query value =
     (if isinstance_basestring value then value
      else if truthy value then PyStr ''FOR UPDATE''
      else PyStr ''FOR SHARE'')"


section \<open>Identifier quoting\<close>

text \<open>\<open>MySQLQueryGrammar._wrap_value\<close>\<close>

definition mysql_wrap_value :: "string \<Rightarrow> string" where
  "mysql_wrap_value value =
     (if value = ''*'' then value
      else ''`'' @ py_replace ''`'' ''``'' value @ ''`'')"


section \<open>The grammar instance and the helpers of the base grammar\<close>

text \<open>
  A grammar instance carries its dialect (which decides the methods that are overridden),
  the parameter marker and the table prefix. The three classes of the sources set
  \<open>marker = "%s"\<close>.
\<close>

datatype dialect = MySQL | Postgres

record grammar =
  dialect :: dialect
  marker :: string
  table_prefix :: string

definition mysql_query_grammar :: grammar where
  "mysql_query_grammar = \<lparr>dialect = MySQL, marker = ''%s'', table_prefix = ''''\<rparr>"

definition pg_query_grammar :: grammar where
  "pg_query_grammar = \<lparr>dialect = Postgres, marker = ''%s'', table_prefix = ''''\<rparr>"


text \<open>
  Modelled from the spec: the \<open>_wrap_value\<close> of the base grammar, which the Postgres
  grammars inherit and which is not among the sources. The spec (4.2): \<open>*\<close> is never
  quoted; otherwise wrap in the double quote (character 0x22) with every internal double
  quote doubled.
\<close>

definition base_wrap_value :: "string \<Rightarrow> string" where
  "base_wrap_value value =
     (if value = ''*'' then value
      else [CHR 0x22] @ py_replace [CHR 0x22] [CHR 0x22, CHR 0x22] value @ [CHR 0x22])"

text \<open>The method that \<open>self._wrap_value\<close> resolves to: the MySQL grammar overrides it.\<close>

definition wrap_value :: "grammar \<Rightarrow> string \<Rightarrow> string" where
  "wrap_value g value =
     (case dialect g of MySQL \<Rightarrow> mysql_wrap_value value | Postgres \<Rightarrow> base_wrap_value value)"

text \<open>
  Modelled from the spec: \<open>wrap\<close> of the base grammar, not among the sources. The spec
  (3, 4.2): an identifier is wrapped in the quote character of the dialect; an Expression
  bypasses quoting and is inlined as it is.
\<close>

definition wrap :: "grammar \<Rightarrow> sql_ident \<Rightarrow> string" where
  "wrap g value = (case value of RawSql e \<Rightarrow> e | Ident s \<Rightarrow> wrap_value g s)"

text \<open>
  Modelled from the spec: \<open>wrap_table\<close> of the base grammar, not among the sources. The
  spec (4.2): the quoted text of the table with the optional prefix.
\<close>

definition wrap_table :: "grammar \<Rightarrow> sql_ident \<Rightarrow> string" where
  "wrap_table g t =
     (case t of RawSql e \<Rightarrow> e | Ident s \<Rightarrow> wrap g (Ident (table_prefix g @ s)))"

text \<open>
  Modelled from the spec: \<open>columnize\<close> of the base grammar, not among the sources. The
  spec's upsert example renders the columns \<open>id\<close>, \<open>name\<close> as the wrapped names joined
  by a comma and a space.
\<close>

definition columnize :: "grammar \<Rightarrow> sql_ident list \<Rightarrow> string" where
  "columnize g columns = py_join '', '' (map (wrap g) columns)"

text \<open>
  Modelled from the spec: \<open>parameter\<close> and \<open>parameterize\<close> of the base grammar, not among
  the sources. The spec (4.3): \<open>parameter(value) -> placeholder_text\<close> emits the marker of
  the dialect; an Expression bypasses binding and is inlined. \<open>parameterize(values)\<close> is
  the comma-joined placeholders. The sources use both results as strings.
\<close>

definition parameter :: "grammar \<Rightarrow> pyval \<Rightarrow> string" where
  "parameter g value = (case value of PyExpression e \<Rightarrow> e | _ \<Rightarrow> marker g)"

definition parameterize :: "grammar \<Rightarrow> pyval list \<Rightarrow> string" where
  "parameterize g vals = py_join '', '' (map (parameter g) vals)"

text \<open>
  The renderers of the base query grammar that the dialect grammars call and that are
  not among the sources are parameters of the model: \<open>_compile_wheres\<close>,
  \<open>_compile_joins\<close>, \<open>_compile_orders\<close>, \<open>_compile_limit\<close>,
  \<open>_compile_join_constraints\<close> and \<open>_remove_leading_boolean\<close>.
\<close>

record base_renderers =
  compile_wheres :: "query \<Rightarrow> string"
  compile_joins :: "query \<Rightarrow> join list \<Rightarrow> string"
  compile_orders :: "query \<Rightarrow> order_clause list \<Rightarrow> string"
  compile_limit :: "query \<Rightarrow> pyval \<Rightarrow> string"
  compile_join_constraints :: "join_clause \<Rightarrow> string"
  remove_leading_boolean :: "string \<Rightarrow> string"


section \<open>Upsert\<close>

text \<open>
  A row is a dictionary from column names to values, in insertion order. The \<open>values\<close>
  argument is one row or a list of rows; \<open>if not isinstance(values, list): values =
  [values]\<close> makes it a list.
\<close>

type_synonym row = "(string \<times> pyval) list"

datatype upsert_values = OneRow row | RowList "row list"

fun as_row_list :: "upsert_values \<Rightarrow> row list" where
  "as_row_list (OneRow r) = [r]"
| "as_row_list (RowList rs) = rs"

text \<open>
  \<open>PostgresQueryGrammar.compile_upsert\<close>. \<open>values[0]\<close> raises \<open>IndexError\<close> on an empty
  list. The value returned is one string.
\<close>

definition pg_compile_upsert ::
  "grammar \<Rightarrow> query \<Rightarrow> upsert_values \<Rightarrow> string list \<Rightarrow> string list
     \<Rightarrow> py_error + pyval" where
  "pg_compile_upsert g query vals conflict_keys conflict_columns =
     (let table = wrap_table g (from_table query);
          rows = as_row_list vals
      in case rows of
           [] \<Rightarrow> Inl IndexError
         | row0 # _ \<Rightarrow>
             (let columns = columnize g (map (\<lambda>kv. Ident (fst kv)) row0);
                  parameters = parameterize g (map snd row0);
                  value = replicate (length rows) (''('' @ parameters @ '')'');
                  parameters = py_join '', '' value;
                  conflict_key_join = py_join '', '' conflict_keys;
                  conflict_update_statements =
                    map (\<lambda>col. col @ '' = EXCLUDED.'' @ col) conflict_columns;
                  conflict_update_join = py_join '', '' conflict_update_statements
              in Inr (PyStr
                   (''INSERT INTO '' @ table @ '' ('' @ columns @ '') VALUES '' @ parameters
                      @ '' ON CONFLICT ('' @ conflict_key_join @ '') DO UPDATE SET ''
                      @ conflict_update_join))))"


text \<open>
  \<open>MySQLQueryGrammar.compile_upsert\<close> has two \<open>return\<close> statements, and the value it
  returns is a tuple of two strings at the first and a string at the second. The body
  is modelled as two blocks run in sequence: a block returns, raises, or runs to its
  end, and the next block runs only in the last case.
\<close>

datatype upsert_result = ReturnedPair string string | ReturnedStatement string

datatype 'a flow = Return 'a | Raise py_error | Continue

definition then_block :: "'a flow \<Rightarrow> 'a flow \<Rightarrow> 'a flow" where
  "then_block first_block rest = (case first_block of Continue \<Rightarrow> rest | _ \<Rightarrow> first_block)"

text \<open>
  The statements after \<open>return columns, parameters\<close>. \<open>"%s = %s" % (col)\<close> has two
  conversions and, for a column name, a single string argument: it raises \<open>TypeError\<close>,
  so the list comprehension succeeds only on an empty \<open>conflict_columns\<close>.
\<close>

definition mysql_compile_upsert_tail ::
  "string \<Rightarrow> string \<Rightarrow> string \<Rightarrow> string list \<Rightarrow> upsert_result flow" where
  "mysql_compile_upsert_tail table_sql columns parameters conflict_columns =
     (if conflict_columns \<noteq> [] then Raise TypeError
      else (let conflict_update_statements = [];
                conflict_update_join = py_join '', '' conflict_update_statements
            in Return (ReturnedStatement
                 (''INSERT INTO '' @ table_sql @ '' ('' @ columns @ '') VALUES '' @ parameters
                    @ '' ON DUPLICATE KEY UPDATE '' @ conflict_update_join))))"

definition mysql_compile_upsert ::
  "grammar \<Rightarrow> query \<Rightarrow> upsert_values \<Rightarrow> string list \<Rightarrow> string list
     \<Rightarrow> upsert_result flow" where
  "mysql_compile_upsert g query vals conflict_keys conflict_columns =
     (let table = wrap_table g (from_table query);
          rows = as_row_list vals
      in case rows of
           [] \<Rightarrow> Raise IndexError
         | row0 # _ \<Rightarrow>
             (let columns = columnize g (map (\<lambda>kv. Ident (fst kv)) row0);
                  parameters = parameterize g (map snd row0);
                  value = replicate (length rows) (''('' @ parameters @ '')'');
                  parameters = py_join '', '' value
              in then_block (Return (ReturnedPair columns parameters))
                   (mysql_compile_upsert_tail table columns parameters conflict_columns)))"


section \<open>Delete (MySQL)\<close>

text \<open>
  \<open>MySQLQueryGrammar.compile_delete\<close>. \<open>if query.joins\<close>, \<open>if query.orders\<close> test that the
  list is not empty; \<open>if query.limit_\<close> tests truthiness, so a limit of \<open>None\<close> or \<open>0\<close>
  adds nothing.
\<close>

definition mysql_compile_delete :: "grammar \<Rightarrow> base_renderers \<Rightarrow> query \<Rightarrow> string" where
  "mysql_compile_delete g B query =
     (let table = wrap_table g (from_table query);
          wheres_sql = (case wheres query of
                          Some ws \<Rightarrow> compile_wheres B query
                        | None \<Rightarrow> '''');
          sql = (if joins query \<noteq> []
                 then (let joins_sql = '' '' @ compile_joins B query (joins query)
                       in ''DELETE '' @ table @ '' FROM '' @ table @ joins_sql @ '' '' @ wheres_sql)
                 else ''DELETE FROM '' @ table @ '' '' @ wheres_sql);
          sql = py_strip sql;
          sql = (if orders query \<noteq> []
                 then sql @ '' '' @ compile_orders B query (orders query) else sql);
          sql = (if truthy (limit_value query)
                 then sql @ '' '' @ compile_limit B query (limit_value query) else sql)
      in sql)"


text \<open>
  The shape the spec (4.6) gives to the statement before the order and limit fragments:
  \<open>DELETE <table> FROM <table> <joins> <wheres>\<close> with joins, \<open>DELETE FROM <table>
  <wheres>\<close> without, the parts separated by one space.
\<close>

definition delete_shape :: "grammar \<Rightarrow> base_renderers \<Rightarrow> query \<Rightarrow> string" where
  "delete_shape g B q =
     (let table_sql = wrap_table g (from_table q);
          wheres_sql = (case wheres q of Some ws \<Rightarrow> compile_wheres B q | None \<Rightarrow> '''')
      in if joins q \<noteq> []
         then ''DELETE '' @ table_sql @ '' FROM '' @ table_sql @ '' ''
                @ compile_joins B q (joins q) @ '' '' @ wheres_sql
         else ''DELETE FROM '' @ table_sql @ '' '' @ wheres_sql)"


section \<open>Update (Postgres)\<close>

text \<open>\<open>PostgresQueryGrammar._compile_update_columns\<close>\<close>

definition pg_compile_update_columns :: "grammar \<Rightarrow> row \<Rightarrow> string" where
  "pg_compile_update_columns g vals =
     py_join '', ''
       (map (\<lambda>kv. wrap g (Ident (fst kv)) @ '' = '' @ parameter g (snd kv)) vals)"

text \<open>\<open>PostgresQueryGrammar._compile_update_from\<close>\<close>

definition pg_compile_update_from :: "grammar \<Rightarrow> query \<Rightarrow> string" where
  "pg_compile_update_from g query =
     (if joins query = [] then ''''
      else (let froms = map (\<lambda>j. wrap_table g (table j)) (joins query)
            in if length froms \<noteq> 0 then '' FROM '' @ py_join '', '' froms else ''''))"

text \<open>\<open>PostgresQueryGrammar._compile_update_join_wheres\<close>: the two nested loops.\<close>

definition pg_compile_update_join_wheres :: "base_renderers \<Rightarrow> query \<Rightarrow> string" where
  "pg_compile_update_join_wheres B query =
     py_join '' ''
       (concat (map (\<lambda>j. map (compile_join_constraints B) (clauses j)) (joins query)))"

text \<open>\<open>PostgresQueryGrammar._compile_update_wheres\<close>\<close>

definition pg_compile_update_wheres :: "base_renderers \<Rightarrow> query \<Rightarrow> string" where
  "pg_compile_update_wheres B query =
     (let base_where = compile_wheres B query
      in if joins query = [] then base_where
         else (let join_where = pg_compile_update_join_wheres B query
               in if py_strip base_where = []
                  then ''WHERE '' @ remove_leading_boolean B join_where
                  else base_where @ '' '' @ join_where))"

text \<open>\<open>PostgresQueryGrammar.compile_update\<close>\<close>

definition pg_compile_update :: "grammar \<Rightarrow> base_renderers \<Rightarrow> query \<Rightarrow> row \<Rightarrow> string" where
  "pg_compile_update g B query vals =
     (let table = wrap_table g (from_table query);
          columns = pg_compile_update_columns g vals;
          from_sql = pg_compile_update_from g query;
          where_sql = pg_compile_update_wheres B query
      in py_strip (''UPDATE '' @ table @ '' SET '' @ columns @ from_sql @ '' '' @ where_sql))"


section \<open>Column types and modifiers (Postgres schema grammar)\<close>

text \<open>
  A column definition is a \<open>Fluent\<close>: the attributes the methods read, with \<open>None\<close> for
  an attribute that is not set.
\<close>

record column =
  column_name :: string
  column_type :: string
  auto_increment :: pyval
  nullable :: pyval
  column_default :: pyval

record blueprint =
  blueprint_table :: string
  blueprint_columns :: "column list"

definition pg_modifiers :: "string list" where
  "pg_modifiers = [''increment'', ''nullable'', ''default'']"

definition pg_serials :: "string list" where
  "pg_serials = [''big_integer'', ''integer'', ''medium_integer'', ''small_integer'',
                 ''tiny_integer'']"

text \<open>\<open>PostgresSchemaGrammar._type_integer\<close>\<close>

definition type_integer :: "column \<Rightarrow> string" where
  "type_integer col = (if truthy (auto_increment col) then ''SERIAL'' else ''INTEGER'')"

text \<open>\<open>PostgresSchemaGrammar._modify_nullable\<close>\<close>

definition modify_nullable :: "blueprint \<Rightarrow> column \<Rightarrow> string" where
  "modify_nullable bp col = (if truthy (nullable col) then '' NULL'' else '' NOT NULL'')"

text \<open>
  \<open>PostgresSchemaGrammar._modify_default\<close>; \<open>_get_default_value\<close> of the base schema
  grammar is not among the sources and is a parameter.
\<close>

definition modify_default :: "(pyval \<Rightarrow> string) \<Rightarrow> blueprint \<Rightarrow> column \<Rightarrow> string" where
  "modify_default get_default_value bp col =
     (if column_default col \<noteq> PyNone
      then '' DEFAULT '' @ get_default_value (column_default col) else '''')"

text \<open>\<open>PostgresSchemaGrammar._modify_increment\<close>\<close>

definition modify_increment :: "blueprint \<Rightarrow> column \<Rightarrow> string" where
  "modify_increment bp col =
     (if column_type col \<in> set pg_serials \<and> truthy (auto_increment col)
      then '' PRIMARY KEY'' else '''')"

text \<open>The method that \<open>_modify_<name>\<close> names, when the class has one.\<close>

definition modifier_method ::
  "(pyval \<Rightarrow> string) \<Rightarrow> string \<Rightarrow> (blueprint \<Rightarrow> column \<Rightarrow> string) option" where
  "modifier_method get_default_value modifier =
     (if modifier = ''increment'' then Some modify_increment
      else if modifier = ''nullable'' then Some modify_nullable
      else if modifier = ''default'' then Some (modify_default get_default_value)
      else None)"

text \<open>
  Modelled from the spec: the loop of the base schema grammar that applies the
  modifiers, not among the sources. The spec (4.8): the modifiers are appended in the
  order of the \<open>_modifiers\<close> list after the base type text.
\<close>

definition add_modifiers ::
  "(pyval \<Rightarrow> string) \<Rightarrow> string \<Rightarrow> blueprint \<Rightarrow> column \<Rightarrow> string" where
  "add_modifiers get_default_value sql bp col =
     foldl (\<lambda>acc modifier.
              case modifier_method get_default_value modifier of
                Some modifier_fn \<Rightarrow> acc @ modifier_fn bp col
              | None \<Rightarrow> acc)
       sql pg_modifiers"


section \<open>The absent helpers as the spec reads them, and a sample instance\<close>


text \<open>
  Modelled from the spec: \<open>_remove_leading_boolean\<close> of the base grammar, not among the
  sources. The spec (4.7): the leading boolean connector (AND / OR) of the text is
  stripped.
\<close>

definition spec_remove_leading_boolean :: "string \<Rightarrow> string" where
  "spec_remove_leading_boolean s =
     (if take 4 s = ''and '' \<or> take 4 s = ''AND '' then drop 4 s
      else if take 3 s = ''or '' \<or> take 3 s = ''OR '' then drop 3 s
      else s)"

text \<open>
  Modelled from the spec: \<open>_compile_join_constraints\<close> of the base grammar, not among the
  sources. The spec (3, 4.7): a constraint clause is column, operator, column, with its
  boolean connector; it is rendered as a boolean-connected predicate, the connector
  first.
\<close>

definition join_predicate :: "grammar \<Rightarrow> join_clause \<Rightarrow> string" where
  "join_predicate g c =
     wrap g (Ident (first c)) @ '' '' @ operator c @ '' '' @ wrap g (Ident (second c))"

definition spec_compile_join_constraints :: "grammar \<Rightarrow> join_clause \<Rightarrow> string" where
  "spec_compile_join_constraints g c = boolean c @ '' '' @ join_predicate g c"

text \<open>
  A sample instance of the renderers of the base grammar, on which the results below are
  evaluated at concrete statements; the results themselves hold for every instance. It
  renders basic where clauses, joins, orders and a limit in the usual SQL form.
\<close>

definition sample_compile_wheres :: "grammar \<Rightarrow> query \<Rightarrow> string" where
  "sample_compile_wheres g q =
     (case wheres q of
        None \<Rightarrow> ''''
      | Some [] \<Rightarrow> ''''
      | Some ws \<Rightarrow>
          ''WHERE '' @ spec_remove_leading_boolean
            (py_join '' ''
               (map (\<lambda>w. where_boolean w @ '' '' @ wrap g (Ident (where_column w)) @ '' ''
                            @ where_operator w @ '' '' @ parameter g (where_value w))
                  ws)))"

definition sample_compile_joins :: "grammar \<Rightarrow> query \<Rightarrow> join list \<Rightarrow> string" where
  "sample_compile_joins g q js =
     py_join '' ''
       (map (\<lambda>j. join_type j @ '' JOIN '' @ wrap_table g (table j) @ '' ON ''
                    @ spec_remove_leading_boolean
                        (py_join '' '' (map (spec_compile_join_constraints g) (clauses j))))
          js)"

definition sample_compile_orders :: "grammar \<Rightarrow> query \<Rightarrow> order_clause list \<Rightarrow> string" where
  "sample_compile_orders g q os =
     ''ORDER BY ''
       @ py_join '', '' (map (\<lambda>ord. wrap g (Ident (order_column ord)) @ '' '' @ direction ord) os)"

definition sample_base :: "grammar \<Rightarrow> base_renderers" where
  "sample_base g =
     \<lparr>compile_wheres = sample_compile_wheres g,
      compile_joins = sample_compile_joins g,
      compile_orders = sample_compile_orders g,
      compile_limit = (\<lambda>q v. ''LIMIT '' @ parameter g v),
      compile_join_constraints = spec_compile_join_constraints g,
      remove_leading_boolean = spec_remove_leading_boolean\<rparr>"


section \<open>Properties of the string helpers\<close>

lemma py_replace_Nil: "old \<noteq> [] \<Longrightarrow> py_replace old new [] = []"
  by (subst py_replace.simps) simp

lemma py_replace_single_Cons:
  "py_replace [a] new (c # cs) =
     (if c = a then new @ py_replace [a] new cs else c # py_replace [a] new cs)"
  by (subst py_replace.simps) simp

lemma py_replace_doubles: "py_replace [qc] [qc, qc] s = double_char qc s"
  by (induction s) (simp_all add: py_replace_Nil py_replace_single_Cons)

lemma double_char_contains:
  "qc \<in> set s \<Longrightarrow> \<exists>pre post. double_char qc s = pre @ [qc, qc] @ post"
proof (induction s)
  case Nil
  then show ?case by simp
next
  case (Cons c cs)
  show ?case
  proof (cases "c = qc")
    case True
    then have "double_char qc (c # cs) = [] @ [qc, qc] @ double_char qc cs" by simp
    then show ?thesis by blast
  next
    case False
    with Cons.prems have "qc \<in> set cs" by simp
    then obtain pre post where "double_char qc cs = pre @ [qc, qc] @ post"
      using Cons.IH by blast
    with False have "double_char qc (c # cs) = (c # pre) @ [qc, qc] @ post" by simp
    then show ?thesis by blast
  qed
qed


lemma base_wrap_value_eq:
  "base_wrap_value s =
     (if s = ''*'' then s else [CHR 0x22] @ double_char (CHR 0x22) s @ [CHR 0x22])"
  by (simp add: base_wrap_value_def py_replace_doubles)

lemma mysql_wrap_value_eq:
  "mysql_wrap_value s =
     (if s = ''*'' then s else [CHR 0x60] @ double_char (CHR 0x60) s @ [CHR 0x60])"
  by (simp add: mysql_wrap_value_def py_replace_doubles)

lemma dropWhile_all_prefix:
  "\<forall>c \<in> set xs. P c \<Longrightarrow> dropWhile P (xs @ ys) = dropWhile P ys"
  by (induction xs) simp_all

lemma py_rstrip_blank_suffix:
  "\<forall>c \<in> set b. py_isspace c \<Longrightarrow> py_rstrip (a @ b) = py_rstrip a"
  by (simp add: py_rstrip_def dropWhile_all_prefix)

lemma py_rstrip_keeps_prefix:
  assumes a: "a \<noteq> []" and l: "\<not> py_isspace (last a)"
  shows "py_rstrip (a @ b) = a @ py_rstrip b"
proof -
  have "dropWhile py_isspace (rev b @ rev a) = dropWhile py_isspace (rev b) @ rev a"
  proof (cases "\<forall>c \<in> set (rev b). py_isspace c")
    case True
    then have "dropWhile py_isspace (rev b @ rev a) = dropWhile py_isspace (rev a)"
      by (rule dropWhile_all_prefix)
    moreover from True have "dropWhile py_isspace (rev b) = []" by simp
    moreover from a l have "dropWhile py_isspace (rev a) = rev a"
      by (cases "rev a") (auto simp: last_rev hd_rev dest: arg_cong[where f=hd])
    ultimately show ?thesis by simp
  next
    case False
    then obtain c where "c \<in> set (rev b)" "\<not> py_isspace c" by blast
    then show ?thesis by (simp add: dropWhile_append1)
  qed
  then show ?thesis by (simp add: py_rstrip_def)
qed

lemma py_rstrip_last:
  assumes ne: "py_rstrip s \<noteq> []"
  shows "\<not> py_isspace (last (py_rstrip s))"
proof -
  from ne have d: "dropWhile py_isspace (rev s) \<noteq> []" by (simp add: py_rstrip_def)
  then have "\<not> py_isspace (hd (dropWhile py_isspace (rev s)))" by (rule hd_dropWhile)
  with d show ?thesis by (simp add: py_rstrip_def last_rev)
qed

lemma py_strip_blank: "(py_strip s = []) = (\<forall>c \<in> set s. py_isspace c)"
proof
  assume "py_strip s = []"
  then have "\<forall>c \<in> set (py_lstrip s). py_isspace c"
    by (simp add: py_strip_def py_rstrip_def)
  moreover have "s = takeWhile py_isspace s @ py_lstrip s" by (simp add: py_lstrip_def)
  ultimately show "\<forall>c \<in> set s. py_isspace c"
    by (metis UnE set_append set_takeWhileD)
next
  assume "\<forall>c \<in> set s. py_isspace c"
  then have "py_lstrip s = []" by (simp add: py_lstrip_def)
  then show "py_strip s = []" by (simp add: py_strip_def py_rstrip_def)
qed

lemma py_strip_DELETE: "py_strip (''DELETE'' @ s) = ''DELETE'' @ py_rstrip s"
proof -
  have "py_lstrip (''DELETE'' @ s) = ''DELETE'' @ s"
    by (simp add: py_lstrip_def py_isspace_def)
  moreover have "py_rstrip (''DELETE'' @ s) = ''DELETE'' @ py_rstrip s"
    by (rule py_rstrip_keeps_prefix) (simp_all add: py_isspace_def)
  ultimately show ?thesis by (simp add: py_strip_def)
qed

lemma last_DELETE_rstrip: "\<not> py_isspace (last (''DELETE'' @ py_rstrip r))"
proof (cases "py_rstrip r = []")
  case True
  then show ?thesis by (simp add: py_isspace_def)
next
  case False
  then show ?thesis using py_rstrip_last [of r] by simp
qed

lemma py_strip_blank_suffix:
  assumes "py_strip w = []"
  shows "py_strip (''DELETE'' @ x @ '' '' @ w) = py_rstrip (''DELETE'' @ x)"
proof -
  from assms have "\<forall>c \<in> set ('' '' @ w). py_isspace c"
    by (simp add: py_strip_blank py_isspace_def)
  then have "py_rstrip (x @ '' '' @ w) = py_rstrip x"
    by (rule py_rstrip_blank_suffix)
  moreover have "py_rstrip (''DELETE'' @ x) = ''DELETE'' @ py_rstrip x"
    by (rule py_rstrip_keeps_prefix) (simp_all add: py_isspace_def)
  ultimately show ?thesis by (simp only: py_strip_DELETE)
qed


section \<open>Properties of the base helpers\<close>





lemma mysql_compile_upsert_Cons:
  assumes "as_row_list vals = row0 # rest"
  shows "mysql_compile_upsert g q vals ck cc =
     Return (ReturnedPair
       (columnize g (map (\<lambda>kv. Ident (fst kv)) row0))
       (py_join '', ''
          (replicate (Suc (length rest))
             (''('' @ py_join '', '' (map (\<lambda>kv. parameter g (snd kv)) row0) @ '')''))))"
  using assms
  by (simp add: mysql_compile_upsert_def Let_def then_block_def parameterize_def comp_def)

lemma mysql_compile_upsert_Nil:
  assumes "as_row_list vals = []"
  shows "mysql_compile_upsert g q vals ck cc = Raise IndexError"
  using assms by (simp add: mysql_compile_upsert_def)

lemma delete_shape_DELETE: "\<exists>r. delete_shape g B q = ''DELETE'' @ r"
  by (simp add: delete_shape_def Let_def)

lemma py_join_Cons_prefix: "py_join sep ((a @ x) # xs) = a @ py_join sep (x # xs)"
  by (cases xs) simp_all

lemma spec_remove_leading_boolean_connector:
  assumes "b \<in> set [''and'', ''or'', ''AND'', ''OR'']"
  shows "spec_remove_leading_boolean (b @ '' '' @ rest) = rest"
  using assms by (auto simp: spec_remove_leading_boolean_def)


section \<open>Lock clauses: results\<close>

text \<open>
  C4. In both dialects a string lock value is returned unchanged. For the MySQL grammar
  \<open>True\<close> gives \<open>FOR UPDATE\<close> and \<open>False\<close> gives \<open>LOCK IN SHARE MODE\<close>; for the Postgres
  grammar \<open>True\<close> gives \<open>FOR UPDATE\<close> and \<open>False\<close> gives \<open>FOR SHARE\<close>. This holds for
  every query.
\<close>

theorem compile_lock_contract:
  "mysql_compile_lock q (PyStr s) = PyStr s
   \<and> pg_compile_lock q (PyStr s) = PyStr s
   \<and> mysql_compile_lock q (PyBool True) = PyStr ''FOR UPDATE''
   \<and> mysql_compile_lock q (PyBool False) = PyStr ''LOCK IN SHARE MODE''
   \<and> pg_compile_lock q (PyBool True) = PyStr ''FOR UPDATE''
   \<and> pg_compile_lock q (PyBool False) = PyStr ''FOR SHARE''"
  by (simp add: mysql_compile_lock_def pg_compile_lock_def)

text \<open>
  C10. For a lock value that is not a string, the Postgres grammar returns \<open>FOR UPDATE\<close>
  when the value is truthy and \<open>FOR SHARE\<close> when it is falsy; the MySQL grammar returns
  \<open>None\<close> when the value is, in addition, neither \<open>True\<close> nor \<open>False\<close>, so that the two
  dialects give different results on such a value.
\<close>

theorem compile_lock_non_boolean:
  "(\<not> isinstance_basestring v \<longrightarrow>
      pg_compile_lock q v = (if truthy v then PyStr ''FOR UPDATE'' else PyStr ''FOR SHARE''))
   \<and> (\<not> isinstance_basestring v \<and> v \<noteq> PyBool True \<and> v \<noteq> PyBool False \<longrightarrow>
      mysql_compile_lock q v = PyNone \<and> mysql_compile_lock q v \<noteq> pg_compile_lock q v)"
  by (simp add: mysql_compile_lock_def pg_compile_lock_def)

theorem compile_lock_non_boolean_witness:
  "\<not> isinstance_basestring (PyInt 1) \<and> PyInt 1 \<noteq> PyBool True \<and> PyInt 1 \<noteq> PyBool False
   \<and> truthy (PyInt 1)
   \<and> mysql_compile_lock
        \<lparr>from_table = Ident ''t'', joins = [], wheres = None, orders = [], limit_value = PyNone, unions = []\<rparr>
        (PyInt 1) = PyNone
   \<and> pg_compile_lock
        \<lparr>from_table = Ident ''t'', joins = [], wheres = None, orders = [], limit_value = PyNone, unions = []\<rparr>
        (PyInt 1) = PyStr ''FOR UPDATE''
   \<and> \<not> truthy (PyInt 0)
   \<and> mysql_compile_lock
        \<lparr>from_table = Ident ''t'', joins = [], wheres = None, orders = [], limit_value = PyNone, unions = []\<rparr>
        (PyInt 0) = PyNone
   \<and> pg_compile_lock
        \<lparr>from_table = Ident ''t'', joins = [], wheres = None, orders = [], limit_value = PyNone, unions = []\<rparr>
        (PyInt 0) = PyStr ''FOR SHARE''"
  using compile_lock_non_boolean
    [of "PyInt 1" "\<lparr>from_table = Ident ''t'', joins = [], wheres = None, orders = [], limit_value = PyNone, unions = []\<rparr>"]
    compile_lock_non_boolean
    [of "PyInt 0" "\<lparr>from_table = Ident ''t'', joins = [], wheres = None, orders = [], limit_value = PyNone, unions = []\<rparr>"]
  by simp


section \<open>Identifier quoting: results\<close>

text \<open>
  C5. The MySQL grammar leaves the identifier \<open>*\<close> unquoted. Every other identifier is
  returned with each backtick doubled and the whole enclosed in backticks; so when the
  identifier contains a backtick, the result contains two backticks in a row between
  the enclosing pair.
\<close>

theorem mysql_wrap_value_quotes:
  "mysql_wrap_value ''*'' = ''*''
   \<and> (s \<noteq> ''*'' \<longrightarrow> mysql_wrap_value s = ''`'' @ double_char (CHR ''`'') s @ ''`'')
   \<and> (CHR ''`'' \<in> set s \<longrightarrow>
        (\<exists>pre post. mysql_wrap_value s = ''`'' @ pre @ ''``'' @ post @ ''`''))"
proof (intro conjI impI)
  show "mysql_wrap_value ''*'' = ''*''"
    by (simp add: mysql_wrap_value_def)
next
  assume "s \<noteq> ''*''"
  then show "mysql_wrap_value s = ''`'' @ double_char (CHR ''`'') s @ ''`''"
    using py_replace_doubles [of "CHR ''`''" s] by (simp add: mysql_wrap_value_def)
next
  assume tick: "CHR ''`'' \<in> set s"
  then have ne: "s \<noteq> ''*''" by auto
  from tick obtain pre post
    where "double_char (CHR ''`'') s = pre @ [CHR ''`'', CHR ''`''] @ post"
    using double_char_contains by blast
  with ne have "mysql_wrap_value s = ''`'' @ pre @ ''``'' @ post @ ''`''"
    using py_replace_doubles [of "CHR ''`''" s] by (simp add: mysql_wrap_value_def)
  then show "\<exists>pre post. mysql_wrap_value s = ''`'' @ pre @ ''``'' @ post @ ''`''"
    by blast
qed

theorem mysql_wrap_value_quotes_witness:
  "''a`b'' \<noteq> ''*'' \<and> CHR ''`'' \<in> set ''a`b''
   \<and> mysql_wrap_value ''a`b'' = ''`a``b`''"
  using mysql_wrap_value_quotes [of "''a`b''"] by simp


section \<open>Upsert: results\<close>




text \<open>
  C2, as the code has it. For every call of \<open>compile_upsert\<close> of the MySQL grammar with at
  least one row, the method returns at its first \<open>return\<close> the pair of the comma-joined
  wrapped column names of row 0 and the comma-joined placeholder groups, one group per
  row. For every call whatsoever it neither returns the statement string nor raises the
  \<open>TypeError\<close> of the statements after the first \<open>return\<close>: these are never run.
\<close>

theorem mysql_compile_upsert_early_return:
  "(as_row_list vals = row0 # rest \<longrightarrow>
      mysql_compile_upsert g q vals ck cc =
        Return (ReturnedPair
          (py_join '', '' (map (\<lambda>kv. wrap g (Ident (fst kv))) row0))
          (py_join '', ''
             (replicate (length (as_row_list vals))
                (''('' @ py_join '', '' (map (\<lambda>kv. parameter g (snd kv)) row0) @ '')'')))))
   \<and> mysql_compile_upsert g q vals ck cc \<noteq> Return (ReturnedStatement s)
   \<and> mysql_compile_upsert g q vals ck cc \<noteq> Raise TypeError"
proof (cases "as_row_list vals")
  case Nil
  then show ?thesis by (simp add: mysql_compile_upsert_Nil)
next
  case (Cons r rs)
  then show ?thesis by (simp add: mysql_compile_upsert_Cons columnize_def comp_def)
qed

theorem mysql_compile_upsert_early_return_witness:
  "as_row_list (RowList [[(''id'', PyInt 1), (''name'', PyStr ''a'')],
                         [(''id'', PyInt 2), (''name'', PyStr ''b'')]])
     = [(''id'', PyInt 1), (''name'', PyStr ''a'')] # [[(''id'', PyInt 2), (''name'', PyStr ''b'')]]
   \<and> mysql_compile_upsert mysql_query_grammar
        \<lparr>from_table = Ident ''table'', joins = [], wheres = Some [], orders = [], limit_value = PyNone, unions = []\<rparr>
        (RowList [[(''id'', PyInt 1), (''name'', PyStr ''a'')],
                  [(''id'', PyInt 2), (''name'', PyStr ''b'')]])
        [''id''] [''name'']
      = Return (ReturnedPair ''`id`, `name`'' ''(%s, %s), (%s, %s)'')"
  using mysql_compile_upsert_early_return [of
      "RowList [[(''id'', PyInt 1), (''name'', PyStr ''a'')],
                [(''id'', PyInt 2), (''name'', PyStr ''b'')]]"
      "[(''id'', PyInt 1), (''name'', PyStr ''a'')]"
      "[[(''id'', PyInt 2), (''name'', PyStr ''b'')]]"
      mysql_query_grammar
      "\<lparr>from_table = Ident ''table'', joins = [], wheres = Some [], orders = [], limit_value = PyNone, unions = []\<rparr>"
      "[''id'']" "[''name'']"]
  by (simp add: mysql_query_grammar_def wrap_def wrap_value_def mysql_wrap_value_eq
       parameter_def numeral_2_eq_2)

text \<open>
  C2 as stated fails on an empty list of rows: \<open>values[0]\<close> raises \<open>IndexError\<close> before
  the first \<open>return\<close>, so the call returns nothing.
\<close>

theorem mysql_compile_upsert_early_return_counterexample:
  "mysql_compile_upsert mysql_query_grammar
     \<lparr>from_table = Ident ''table'', joins = [], wheres = Some [], orders = [], limit_value = PyNone, unions = []\<rparr>
     (RowList []) [''id''] [''name''] = Raise IndexError"
  by (simp add: mysql_compile_upsert_def)

text \<open>
  C3, as the code has it. For the Postgres query grammar with marker \<open>m\<close> and no table
  prefix, the upsert of the row \<open>id = 1, name = 'a'\<close> into \<open>table\<close> with conflict key \<open>id\<close>
  and conflict column \<open>name\<close> gives \<open>INSERT INTO "table" ("id", "name") VALUES (m, m) ON
  CONFLICT (id) DO UPDATE SET name = EXCLUDED.name\<close>: the conflict key is joined into the
  text as it is given, without the quote character of the dialect, as the conflict column
  is.
\<close>

theorem pg_compile_upsert_example: \<open>
  pg_compile_upsert
      \<lparr>dialect = Postgres, marker = m, table_prefix = ''''\<rparr>
      \<lparr>from_table = Ident ''table'', joins = js, wheres = ws, orders = os, limit_value = l,
        unions = us\<rparr>
      (OneRow [(''id'', PyInt 1), (''name'', PyStr ''a'')]) [''id''] [''name'']
   = Inr (PyStr (''INSERT INTO "table" ("id", "name") VALUES ('' @ m @ '', '' @ m
            @ '') ON CONFLICT (id) DO UPDATE SET name = EXCLUDED.name''))\<close>
  by (simp add: pg_compile_upsert_def wrap_table_def wrap_def wrap_value_def
       base_wrap_value_eq columnize_def parameterize_def parameter_def)

text \<open>
  C3 as stated fails: with the marker \<open>%s\<close> of the class, the text is not the one with
  the conflict key in double quotes.
\<close>

theorem pg_compile_upsert_example_counterexample: \<open>
  pg_compile_upsert pg_query_grammar
      \<lparr>from_table = Ident ''table'', joins = [], wheres = Some [], orders = [], limit_value = PyNone, unions = []\<rparr>
      (OneRow [(''id'', PyInt 1), (''name'', PyStr ''a'')]) [''id''] [''name'']
   \<noteq> Inr (PyStr ''INSERT INTO "table" ("id", "name") VALUES (%s, %s) ON CONFLICT ("id") DO UPDATE SET name = EXCLUDED.name'')\<close>
  by (simp add: pg_compile_upsert_def pg_query_grammar_def wrap_table_def
       wrap_def wrap_value_def base_wrap_value_eq columnize_def parameterize_def parameter_def)


section \<open>Delete: results\<close>

text \<open>
  C6. For every statement, \<open>compile_delete\<close> of the MySQL grammar is the stripped text
  of the shape \<open>DELETE <table> FROM <table> <joins> <wheres>\<close> when the statement has
  joins and \<open>DELETE FROM <table> <wheres>\<close> when it has none, followed by the orders
  fragment when there are orders and then by the limit fragment when the limit is
  truthy. The stripped part starts with \<open>DELETE\<close> and does not end in whitespace; when
  the wheres render to nothing but whitespace, it is the text before the wheres with
  the trailing whitespace removed.
\<close>

theorem mysql_compile_delete_shape:
  "mysql_compile_delete g B q =
     py_strip (delete_shape g B q)
       @ (if orders q \<noteq> [] then '' '' @ compile_orders B q (orders q) else '''')
       @ (if truthy (limit_value q) then '' '' @ compile_limit B q (limit_value q) else '''')
   \<and> take 6 (py_strip (delete_shape g B q)) = ''DELETE''
   \<and> \<not> py_isspace (last (py_strip (delete_shape g B q)))
   \<and> (py_strip (case wheres q of Some ws \<Rightarrow> compile_wheres B q | None \<Rightarrow> '''') = [] \<longrightarrow>
        py_strip (delete_shape g B q) =
          py_rstrip (if joins q \<noteq> []
                     then ''DELETE '' @ wrap_table g (from_table q) @ '' FROM ''
                            @ wrap_table g (from_table q) @ '' '' @ compile_joins B q (joins q)
                     else ''DELETE FROM '' @ wrap_table g (from_table q)))"
proof (intro conjI impI)
  show "mysql_compile_delete g B q =
     py_strip (delete_shape g B q)
       @ (if orders q \<noteq> [] then '' '' @ compile_orders B q (orders q) else '''')
       @ (if truthy (limit_value q) then '' '' @ compile_limit B q (limit_value q) else '''')"
    by (simp add: mysql_compile_delete_def delete_shape_def Let_def)
next
  obtain r where r: "delete_shape g B q = ''DELETE'' @ r"
    using delete_shape_DELETE by blast
  then have s: "py_strip (delete_shape g B q) = ''DELETE'' @ py_rstrip r"
    by (simp only: py_strip_DELETE)
  show "take 6 (py_strip (delete_shape g B q)) = ''DELETE''"
    unfolding s by simp
  show "\<not> py_isspace (last (py_strip (delete_shape g B q)))"
    unfolding s by (rule last_DELETE_rstrip)
next
  assume blank: "py_strip (case wheres q of Some ws \<Rightarrow> compile_wheres B q | None \<Rightarrow> '''') = []"
  show "py_strip (delete_shape g B q) =
          py_rstrip (if joins q \<noteq> []
                     then ''DELETE '' @ wrap_table g (from_table q) @ '' FROM ''
                            @ wrap_table g (from_table q) @ '' '' @ compile_joins B q (joins q)
                     else ''DELETE FROM '' @ wrap_table g (from_table q))"
  proof (cases "joins q \<noteq> []")
    case True
    then show ?thesis
      using py_strip_blank_suffix [OF blank,
          of "'' '' @ wrap_table g (from_table q) @ '' FROM '' @ wrap_table g (from_table q)
                @ '' '' @ compile_joins B q (joins q)"]
      by (simp add: delete_shape_def Let_def)
  next
    case False
    then show ?thesis
      using py_strip_blank_suffix [OF blank, of "'' FROM '' @ wrap_table g (from_table q)"]
      by (simp add: delete_shape_def Let_def)
  qed
qed

theorem mysql_compile_delete_shape_witness:
  "py_strip (case wheres \<lparr>from_table = Ident ''t'', joins = [], wheres = Some [], orders = [],
                limit_value = PyInt 0, unions = []\<rparr> of
               Some ws \<Rightarrow> compile_wheres (sample_base mysql_query_grammar)
                  \<lparr>from_table = Ident ''t'', joins = [], wheres = Some [], orders = [],
                    limit_value = PyInt 0, unions = []\<rparr>
             | None \<Rightarrow> '''') = []
   \<and> mysql_compile_delete mysql_query_grammar (sample_base mysql_query_grammar)
        \<lparr>from_table = Ident ''t'', joins = [], wheres = Some [], orders = [],
          limit_value = PyInt 0, unions = []\<rparr>
       = ''DELETE FROM `t`''
   \<and> mysql_compile_delete mysql_query_grammar (sample_base mysql_query_grammar)
        \<lparr>from_table = Ident ''t'',
          joins = [\<lparr>table = Ident ''u'',
                    clauses = [\<lparr>first = ''a'', operator = ''='', second = ''b'',
                                boolean = ''and'', where_flag = False\<rparr>],
                    join_type = ''INNER''\<rparr>],
          wheres = Some [\<lparr>where_boolean = ''and'', where_kind = ''basic'', where_column = ''id'',
                          where_operator = ''='', where_value = PyInt 5\<rparr>],
          orders = [\<lparr>order_column = ''id'', direction = ''ASC''\<rparr>],
          limit_value = PyInt 3, unions = []\<rparr>
       = ''DELETE `t` FROM `t` INNER JOIN `u` ON `a` = `b` WHERE `id` = %s ORDER BY `id` ASC LIMIT %s''"
  using mysql_compile_delete_shape [of mysql_query_grammar "sample_base mysql_query_grammar"
      "\<lparr>from_table = Ident ''t'', joins = [], wheres = Some [], orders = [],
        limit_value = PyInt 0, unions = []\<rparr>"]
    mysql_compile_delete_shape [of mysql_query_grammar "sample_base mysql_query_grammar"
      "\<lparr>from_table = Ident ''t'',
          joins = [\<lparr>table = Ident ''u'',
                    clauses = [\<lparr>first = ''a'', operator = ''='', second = ''b'',
                                boolean = ''and'', where_flag = False\<rparr>],
                    join_type = ''INNER''\<rparr>],
          wheres = Some [\<lparr>where_boolean = ''and'', where_kind = ''basic'', where_column = ''id'',
                          where_operator = ''='', where_value = PyInt 5\<rparr>],
          orders = [\<lparr>order_column = ''id'', direction = ''ASC''\<rparr>],
          limit_value = PyInt 3, unions = []\<rparr>"]
  by (simp add: sample_base_def sample_compile_wheres_def sample_compile_joins_def
        sample_compile_orders_def spec_compile_join_constraints_def join_predicate_def
        spec_remove_leading_boolean_def parameter_def delete_shape_def
        py_strip_def py_lstrip_def
        py_rstrip_def wrap_table_def wrap_def wrap_value_def mysql_query_grammar_def
        mysql_wrap_value_eq py_isspace_def)


section \<open>Update: results\<close>

text \<open>
  C7. For every statement with joins, \<open>compile_update\<close> of the Postgres grammar renders,
  after the SET clause, a FROM list of the wrapped tables of the joins in their order,
  and a WHERE text that holds the constraints of all joins in order, each rendered by
  \<open>_compile_join_constraints\<close> and joined by spaces: appended to the statement's own
  wheres when these are not blank, and otherwise put after \<open>WHERE\<close> with
  \<open>_remove_leading_boolean\<close> applied to them. With the two helpers as the spec reads
  them, and the statement's own wheres blank, the connector (\<open>and\<close> or \<open>or\<close>, in lower
  or upper case) of the first join constraint is dropped: the clause is \<open>WHERE\<close>, the
  first predicate without its connector, and then the other constraints with theirs.
\<close>

theorem pg_compile_update_with_joins:
  "(joins q \<noteq> [] \<longrightarrow>
     pg_compile_update g B q vals =
       py_strip
         (''UPDATE '' @ wrap_table g (from_table q)
            @ '' SET '' @ pg_compile_update_columns g vals
            @ '' FROM '' @ py_join '', '' (map (\<lambda>j. wrap_table g (table j)) (joins q))
            @ '' ''
            @ (if py_strip (compile_wheres B q) = []
               then ''WHERE ''
                      @ remove_leading_boolean B
                          (py_join '' ''
                             (map (compile_join_constraints B) (concat (map clauses (joins q)))))
               else compile_wheres B q @ '' ''
                      @ py_join '' ''
                          (map (compile_join_constraints B) (concat (map clauses (joins q)))))))
   \<and> (joins q \<noteq> [] \<and> py_strip (compile_wheres B q) = []
        \<and> concat (map clauses (joins q)) = c # cs
        \<and> boolean c \<in> set [''and'', ''or'', ''AND'', ''OR'']
        \<and> remove_leading_boolean B = spec_remove_leading_boolean
        \<and> compile_join_constraints B = spec_compile_join_constraints g \<longrightarrow>
      pg_compile_update g B q vals =
        py_strip
          (''UPDATE '' @ wrap_table g (from_table q)
             @ '' SET '' @ pg_compile_update_columns g vals
             @ '' FROM '' @ py_join '', '' (map (\<lambda>j. wrap_table g (table j)) (joins q))
             @ '' WHERE ''
             @ py_join '' '' (join_predicate g c # map (spec_compile_join_constraints g) cs)))"
proof -
  have cc: "concat (map (\<lambda>j. map (compile_join_constraints B) (clauses j)) (joins q))
              = map (compile_join_constraints B) (concat (map clauses (joins q)))"
    by (simp add: map_concat comp_def)
  have general: "pg_compile_update g B q vals =
       py_strip
         (''UPDATE '' @ wrap_table g (from_table q)
            @ '' SET '' @ pg_compile_update_columns g vals
            @ '' FROM '' @ py_join '', '' (map (\<lambda>j. wrap_table g (table j)) (joins q))
            @ '' ''
            @ (if py_strip (compile_wheres B q) = []
               then ''WHERE ''
                      @ remove_leading_boolean B
                          (py_join '' ''
                             (map (compile_join_constraints B) (concat (map clauses (joins q)))))
               else compile_wheres B q @ '' ''
                      @ py_join '' ''
                          (map (compile_join_constraints B) (concat (map clauses (joins q))))))"
    if "joins q \<noteq> []"
    using that
    by (simp add: pg_compile_update_def pg_compile_update_from_def pg_compile_update_wheres_def
          pg_compile_update_join_wheres_def Let_def cc)
  have stripped: "pg_compile_update g B q vals =
        py_strip
          (''UPDATE '' @ wrap_table g (from_table q)
             @ '' SET '' @ pg_compile_update_columns g vals
             @ '' FROM '' @ py_join '', '' (map (\<lambda>j. wrap_table g (table j)) (joins q))
             @ '' WHERE ''
             @ py_join '' '' (join_predicate g c # map (spec_compile_join_constraints g) cs))"
    if j: "joins q \<noteq> []" and blank: "py_strip (compile_wheres B q) = []"
      and cl: "concat (map clauses (joins q)) = c # cs"
      and conn: "boolean c \<in> set [''and'', ''or'', ''AND'', ''OR'']"
      and r: "remove_leading_boolean B = spec_remove_leading_boolean"
      and k: "compile_join_constraints B = spec_compile_join_constraints g"
  proof -
    have "py_join '' '' (map (spec_compile_join_constraints g) (c # cs))
            = boolean c @ '' ''
                @ py_join '' '' (join_predicate g c # map (spec_compile_join_constraints g) cs)"
      using py_join_Cons_prefix [of "'' ''" "boolean c @ '' ''" "join_predicate g c"
          "map (spec_compile_join_constraints g) cs"]
      by (simp add: spec_compile_join_constraints_def)
    then have "spec_remove_leading_boolean
                 (py_join '' '' (map (spec_compile_join_constraints g) (c # cs)))
            = py_join '' '' (join_predicate g c # map (spec_compile_join_constraints g) cs)"
      using spec_remove_leading_boolean_connector [OF conn] by simp
    then show ?thesis
      using general [OF j] blank cl r k by simp
  qed
  show ?thesis
    using general stripped by blast
qed

theorem pg_compile_update_with_joins_witness: \<open>
  joins \<lparr>from_table = Ident ''t'',
        joins = [\<lparr>table = Ident ''u'',
                  clauses = [\<lparr>first = ''a'', operator = ''='', second = ''b'', boolean = ''and'',
                              where_flag = False\<rparr>,
                             \<lparr>first = ''c'', operator = ''<'', second = ''d'', boolean = ''or'',
                              where_flag = False\<rparr>],
                  join_type = ''INNER''\<rparr>],
        wheres = Some [], orders = [], limit_value = PyNone, unions = []\<rparr> \<noteq> []
  \<and> py_strip (compile_wheres (sample_base pg_query_grammar)
       \<lparr>from_table = Ident ''t'',
        joins = [\<lparr>table = Ident ''u'',
                  clauses = [\<lparr>first = ''a'', operator = ''='', second = ''b'', boolean = ''and'',
                              where_flag = False\<rparr>,
                             \<lparr>first = ''c'', operator = ''<'', second = ''d'', boolean = ''or'',
                              where_flag = False\<rparr>],
                  join_type = ''INNER''\<rparr>],
        wheres = Some [], orders = [], limit_value = PyNone, unions = []\<rparr>) = []
  \<and> concat (map clauses (joins
       \<lparr>from_table = Ident ''t'',
        joins = [\<lparr>table = Ident ''u'',
                  clauses = [\<lparr>first = ''a'', operator = ''='', second = ''b'', boolean = ''and'',
                              where_flag = False\<rparr>,
                             \<lparr>first = ''c'', operator = ''<'', second = ''d'', boolean = ''or'',
                              where_flag = False\<rparr>],
                  join_type = ''INNER''\<rparr>],
        wheres = Some [], orders = [], limit_value = PyNone, unions = []\<rparr>))
     = \<lparr>first = ''a'', operator = ''='', second = ''b'', boolean = ''and'', where_flag = False\<rparr>
       # [\<lparr>first = ''c'', operator = ''<'', second = ''d'', boolean = ''or'', where_flag = False\<rparr>]
  \<and> boolean \<lparr>first = ''a'', operator = ''='', second = ''b'', boolean = ''and'', where_flag = False\<rparr>
       \<in> set [''and'', ''or'', ''AND'', ''OR'']
  \<and> remove_leading_boolean (sample_base pg_query_grammar) = spec_remove_leading_boolean
  \<and> compile_join_constraints (sample_base pg_query_grammar)
       = spec_compile_join_constraints pg_query_grammar
  \<and> pg_compile_update pg_query_grammar (sample_base pg_query_grammar)
       \<lparr>from_table = Ident ''t'',
        joins = [\<lparr>table = Ident ''u'',
                  clauses = [\<lparr>first = ''a'', operator = ''='', second = ''b'', boolean = ''and'',
                              where_flag = False\<rparr>,
                             \<lparr>first = ''c'', operator = ''<'', second = ''d'', boolean = ''or'',
                              where_flag = False\<rparr>],
                  join_type = ''INNER''\<rparr>],
        wheres = Some [], orders = [], limit_value = PyNone, unions = []\<rparr>
       [(''name'', PyStr ''x'')]
     = ''UPDATE "t" SET "name" = %s FROM "u" WHERE "a" = "b" or "c" < "d"''\<close>
  using pg_compile_update_with_joins [where
      q = "\<lparr>from_table = Ident ''t'',
        joins = [\<lparr>table = Ident ''u'',
                  clauses = [\<lparr>first = ''a'', operator = ''='', second = ''b'', boolean = ''and'',
                              where_flag = False\<rparr>,
                             \<lparr>first = ''c'', operator = ''<'', second = ''d'', boolean = ''or'',
                              where_flag = False\<rparr>],
                  join_type = ''INNER''\<rparr>],
        wheres = Some [], orders = [], limit_value = PyNone, unions = []\<rparr>"
      and B = "sample_base pg_query_grammar"
      and c = "\<lparr>first = ''a'', operator = ''='', second = ''b'', boolean = ''and'', where_flag = False\<rparr>"
      and cs = "[\<lparr>first = ''c'', operator = ''<'', second = ''d'', boolean = ''or'', where_flag = False\<rparr>]"
      and g = pg_query_grammar and vals = "[(''name'', PyStr ''x'')]"]
  by (simp add: sample_base_def sample_compile_wheres_def spec_compile_join_constraints_def
        spec_remove_leading_boolean_def join_predicate_def pg_compile_update_columns_def
        parameter_def
        py_strip_def py_lstrip_def py_rstrip_def wrap_table_def wrap_def wrap_value_def
        pg_query_grammar_def base_wrap_value_eq py_isspace_def)


section \<open>Column types and modifiers: results\<close>

text \<open>
  C9. For the Postgres schema grammar and every column definition, \<open>_type_integer\<close> is
  \<open>SERIAL\<close> when \<open>auto_increment\<close> is set and \<open>INTEGER\<close> otherwise; \<open>_modify_increment\<close> is
  \<open>PRIMARY KEY\<close> (after a space) exactly when the type tag is one of the five serial
  types and \<open>auto_increment\<close> is set, and empty otherwise; and the modifiers are appended
  to the type text in the order increment, nullable, default.
\<close>

theorem pg_column_type_and_modifiers:
  "type_integer c = (if truthy (auto_increment c) then ''SERIAL'' else ''INTEGER'')
   \<and> modify_increment bp c =
       (if column_type c \<in> {''big_integer'', ''integer'', ''medium_integer'', ''small_integer'',
                              ''tiny_integer''}
           \<and> truthy (auto_increment c)
        then '' PRIMARY KEY'' else '''')
   \<and> (modify_increment bp c = '' PRIMARY KEY'') =
       (column_type c \<in> set pg_serials \<and> truthy (auto_increment c))
   \<and> add_modifiers d sql bp c =
       sql @ modify_increment bp c @ modify_nullable bp c @ modify_default d bp c"
  by (simp add: type_integer_def modify_increment_def pg_serials_def add_modifiers_def
        pg_modifiers_def modifier_method_def)

end
